theory Spec2Isabelle
  imports Main "HOL-Library.Word" "HOL-Library.Sublist"
begin

unbundle bit_operations_syntax

section \<open>Data model\<close>

text \<open>
  A Node \<open>Buffer\<close> is a list of bytes. The JavaScript numbers that hold addresses,
  sizes and offsets are natural numbers here; a computation that can go below zero is
  done on \<open>int\<close>.
\<close>

type_synonym byte = "8 word"
type_synonym buffer = "byte list"

text \<open>
  Modelled from the spec: the declarations of \<open>ElfProgram\<close>, \<open>ElfSection\<close> and
  \<open>Elf\<close> (imported from \<open>./types\<close>): a section has a name, a virtual address and
  its bytes; a program segment has a type tag, a virtual address, a file size, a write
  flag and its bytes; the image lists both in order.
\<close>

record ElfProgram =
  ptype :: string
  vaddr :: nat
  filesz :: nat
  flags_w :: bool
  pdata :: buffer

record ElfSection =
  sname :: string
  saddr :: nat
  sdata :: buffer

record Elf =
  sections :: "ElfSection list"
  programs :: "ElfProgram list"

text \<open>
  Modelled from the spec: the class \<open>GoModule\<close> (imported from \<open>./go-module\<close>): an
  identity \<open>(name, version)\<close>, the derived \<open>fullName = name + "@" + version\<close>, and
  the packages of the module, empty at construction. The source tests membership with
  \<open>includes\<close> and appends with \<open>push\<close>, so the packages are a list.
\<close>

record GoModule =
  name :: string
  version :: string
  packages :: "string list"

definition new_GoModule :: "string \<Rightarrow> string \<Rightarrow> GoModule" where
  "new_GoModule n v = \<lparr>name = n, version = v, packages = []\<rparr>"

definition fullName :: "GoModule \<Rightarrow> string" where
  "fullName m = name m @ ''@'' @ version m"

text \<open>
  What the source throws: \<open>Error(message)\<close>, the object literal cast to
  \<open>GoFileNameError\<close> (\<open>fileName\<close>, \<open>moduleName\<close>), and the two errors of the runtime
  that the source does not catch: \<open>TypeError\<close> (a method called on \<open>undefined\<close>) and
  \<open>RangeError\<close> (a read past the end of a buffer, a varint that cannot be decoded).
\<close>

datatype error =
    Error string
  | GoFileNameError string string
  | TypeError
  | RangeError

section \<open>JavaScript strings and Node paths\<close>

text \<open>
  \<open>s.startsWith(p)\<close> is \<open>prefix p s\<close>. \<open>s.indexOf(sub)\<close> is the offset of the first
  occurrence, or \<open>-1\<close>; \<open>s.includes(sub)\<close> says whether there is one.
\<close>

fun indexOf_from :: "nat \<Rightarrow> 'a list \<Rightarrow> 'a list \<Rightarrow> int" where
  "indexOf_from k sub [] = (if sub = [] then int k else - 1)"
| "indexOf_from k sub (c # cs) =
     (if prefix sub (c # cs) then int k else indexOf_from (Suc k) sub cs)"

definition indexOf :: "'a list \<Rightarrow> 'a list \<Rightarrow> int" where
  "indexOf s sub = indexOf_from 0 sub s"

definition js_includes :: "'a list \<Rightarrow> 'a list \<Rightarrow> bool" where
  "js_includes s sub = (indexOf s sub \<ge> 0)"

text \<open>
  \<open>s.split(sep)\<close> with a string separator: the pieces between the occurrences of
  \<open>sep\<close>, found from the left and not overlapping; with the empty separator, the
  characters of \<open>s\<close>. \<open>split_from\<close> carries the piece read so far, reversed.
\<close>

fun split_from :: "'a list \<Rightarrow> 'a list \<Rightarrow> 'a list \<Rightarrow> 'a list list" where
  "split_from sep cur [] = [rev cur]"
| "split_from sep cur (c # cs) =
     (if prefix sep (c # cs)
      then rev cur # split_from sep [] (drop (length sep - 1) cs)
      else split_from sep (c # cur) cs)"

definition js_split :: "'a list \<Rightarrow> 'a list \<Rightarrow> 'a list list" where
  "js_split s sep = (if sep = [] then map (\<lambda>c. [c]) s else split_from sep [] s)"

text \<open>\<open>xs[i]\<close> on an array: \<open>None\<close> is \<open>undefined\<close>.\<close>

fun nth_opt :: "'a list \<Rightarrow> nat \<Rightarrow> 'a option" where
  "nth_opt [] i = None"
| "nth_opt (x # xs) 0 = Some x"
| "nth_opt (x # xs) (Suc i) = nth_opt xs i"

definition trimPrefix :: "string \<Rightarrow> string \<Rightarrow> string" where
  "trimPrefix s p = (if prefix p s then drop (length p) s else s)"

text \<open>
  \<open>path.parse(p).dir\<close> of Node's POSIX \<open>path\<close>: the scan runs from the end of the path
  down to \<open>start\<close> (1 for an absolute path), skips the slashes that end the path, and
  stops at the first slash before the base name; the directory is the path before that
  slash. With no such slash the directory is \<open>/\<close> for an absolute path, and empty
  otherwise. \<open>parse_scan\<close> reads the reversed path and returns the part between
  \<open>start\<close> and the slash.
\<close>

fun parse_scan :: "bool \<Rightarrow> string \<Rightarrow> string option" where
  "parse_scan matchedSlash [] = None"
| "parse_scan matchedSlash (c # cs) =
     (if c = CHR ''/''
      then (if \<not> matchedSlash then Some (rev cs) else parse_scan matchedSlash cs)
      else parse_scan False cs)"

definition path_parse_dir :: "string \<Rightarrow> string" where
  "path_parse_dir p =
     (if p = [] then []
      else
        (let isAbsolute = (hd p = CHR ''/'');
             start = (if isAbsolute then 1 else 0)
         in case parse_scan True (rev (drop start p)) of
              Some before \<Rightarrow> take start p @ before
            | None \<Rightarrow> (if isAbsolute then ''/'' else [])))"

text \<open>
  \<open>path.join(a, b)\<close> of Node's POSIX \<open>path\<close>: the arguments that are not empty, joined
  by a slash, then normalised: empty segments and \<open>.\<close> are dropped, \<open>..\<close> removes the
  segment before it (above the start of a relative path it is kept), a slash at the end
  is kept.
\<close>

fun normalize_segments :: "bool \<Rightarrow> string list \<Rightarrow> string list \<Rightarrow> string list" where
  "normalize_segments allowAboveRoot res [] = rev res"
| "normalize_segments allowAboveRoot res (s # ss) =
     (if s = [] \<or> s = ''.'' then normalize_segments allowAboveRoot res ss
      else if s = ''..'' then
        (case res of
           [] \<Rightarrow> normalize_segments allowAboveRoot (if allowAboveRoot then [s] else []) ss
         | t # ts \<Rightarrow>
             (if t = ''..''
              then normalize_segments allowAboveRoot (if allowAboveRoot then s # res else res) ss
              else normalize_segments allowAboveRoot ts ss))
      else normalize_segments allowAboveRoot (s # res) ss)"

fun join_slash :: "string list \<Rightarrow> string" where
  "join_slash [] = []"
| "join_slash [s] = s"
| "join_slash (s # t # ss) = s @ ''/'' @ join_slash (t # ss)"

definition path_normalize :: "string \<Rightarrow> string" where
  "path_normalize p =
     (if p = [] then ''.''
      else
        (let isAbsolute = (hd p = CHR ''/'');
             trailingSeparator = (last p = CHR ''/'');
             res = join_slash (normalize_segments (\<not> isAbsolute) [] (js_split p ''/''))
         in if res = []
            then (if isAbsolute then ''/'' else if trailingSeparator then ''./'' else ''.'')
            else (if isAbsolute then ''/'' else []) @ res
                 @ (if trailingSeparator then ''/'' else [])))"

definition path_join :: "string \<Rightarrow> string \<Rightarrow> string" where
  "path_join a b =
     (let joined = (if a = [] then b else if b = [] then a else a @ ''/'' @ b)
      in if joined = [] then ''.'' else path_normalize joined)"


section \<open>Buffers\<close>

text \<open>
  \<open>buf.slice(from, to)\<close> and \<open>buf.subarray(from, to)\<close> for offsets that are not
  negative: both ends are clamped to the length of the buffer. \<open>subarray\<close> with one
  argument takes a JavaScript number: a negative start counts from the end.
\<close>

definition slice :: "'a list \<Rightarrow> nat \<Rightarrow> nat \<Rightarrow> 'a list" where
  "slice buf from to = take (to - from) (drop from buf)"

definition subarray :: "'a list \<Rightarrow> int \<Rightarrow> 'a list" where
  "subarray buf start =
     (if start < 0 then drop (nat (max 0 (int (length buf) + start))) buf
      else drop (nat start) buf)"

text \<open>
  \<open>buf.toString("binary")\<close>: one character per byte, with the code of the byte.
\<close>

definition toString_binary :: "buffer \<Rightarrow> string" where
  "toString_binary buf = map (\<lambda>b. char_of (unat b)) buf"

text \<open>
  The bitwise operators of JavaScript work on the operands as signed 32-bit integers.
\<close>

definition js_and :: "int \<Rightarrow> int \<Rightarrow> int" where
  "js_and a b = sint ((word_of_int a :: 32 word) AND word_of_int b)"

definition js_not :: "int \<Rightarrow> int" where
  "js_not a = sint (NOT (word_of_int a :: 32 word))"

section \<open>Segment reader\<close>

text \<open>
  \<open>readData\<close>: the loop over the program segments returns at the first segment
  that holds \<open>addr\<close>; \<open>None\<close> is JavaScript's \<open>undefined\<close>.
\<close>

fun readData :: "ElfProgram list \<Rightarrow> nat \<Rightarrow> nat \<Rightarrow> buffer option" where
  "readData [] addr sz = None"
| "readData (program # rest) addr sz =
     (if vaddr program \<le> addr \<and> int addr \<le> int (vaddr program) + int (filesz program) - 1
      then
        (let n = vaddr program + filesz program - addr;
             n = (if n > sz then sz else n);
             from = addr - vaddr program
         in Some (slice (pdata program) from (from + n)))
      else readData rest addr sz)"

section \<open>Build-info locator and decoder\<close>

text \<open>
  \<open>varint.decode\<close> of the npm package \<open>varint\<close>: base 128, the low seven bits of
  each byte first, the high bit set on every byte but the last. The package gives up
  (\<open>decode.bytes = 0\<close> and a \<open>RangeError\<close>) when the buffer ends inside the number
  or the shift passes 49. The result is the number and \<open>decode.bytes\<close>. A JavaScript
  number is a double: a sum from \<open>2 ^ 53\<close> on may be rounded, to a value that is still
  at least \<open>2 ^ 53\<close>; the model keeps the exact sum.
\<close>

fun varint_loop :: "nat \<Rightarrow> nat \<Rightarrow> nat \<Rightarrow> buffer \<Rightarrow> error + (nat \<times> nat)" where
  "varint_loop res shift counter [] = Inl RangeError"
| "varint_loop res shift counter (b # bs) =
     (if shift > 49 then Inl RangeError
      else
        (let res = res + unat (b AND 0x7F) * 2 ^ shift
         in if b \<ge> 0x80 then varint_loop res (shift + 7) (counter + 1) bs
            else Inr (res, counter + 1)))"

definition varint_decode :: "buffer \<Rightarrow> error + (nat \<times> nat)" where
  "varint_decode buf = varint_loop 0 0 0 buf"

definition decodeString :: "buffer \<Rightarrow> error + (string \<times> buffer)" where
  "decodeString data =
     (case varint_decode data of
        Inl e \<Rightarrow> Inl e
      | Inr (num, sz) \<Rightarrow>
          (if sz \<le> 0 \<or> int num \<ge> int (length data) - int sz then Inr ('''', [])
           else
             (let res = slice data sz (num + sz);
                  rest = drop (num + sz) data
              in Inr (toString_binary res, rest))))"

fun dataStart_programs :: "ElfProgram list \<Rightarrow> nat" where
  "dataStart_programs [] = 0"
| "dataStart_programs (program # rest) =
     (if ptype program = ''load'' \<and> flags_w program = True then vaddr program
      else dataStart_programs rest)"

fun dataStart_sections :: "ElfSection list \<Rightarrow> nat option" where
  "dataStart_sections [] = None"
| "dataStart_sections (section # rest) =
     (if sname section = ''.go.buildinfo'' then Some (saddr section)
      else dataStart_sections rest)"

definition dataStart :: "Elf \<Rightarrow> nat" where
  "dataStart binary =
     (case dataStart_sections (sections binary) of
        Some a \<Rightarrow> a
      | None \<Rightarrow> dataStart_programs (programs binary))"

text \<open>
  The readers of \<open>Buffer\<close> at offset 0: a \<open>RangeError\<close> when the buffer is too short.
  \<open>Number(n)\<close> of a \<open>BigInt\<close> is the nearest double, ties to the even mantissa.
\<close>

definition readUInt32BE :: "buffer \<Rightarrow> error + nat" where
  "readUInt32BE buf =
     (case buf of
        b0 # b1 # b2 # b3 # _ \<Rightarrow>
          Inr (unat b0 * 2 ^ 24 + unat b1 * 2 ^ 16 + unat b2 * 2 ^ 8 + unat b3)
      | _ \<Rightarrow> Inl RangeError)"

definition readUInt32LE :: "buffer \<Rightarrow> error + nat" where
  "readUInt32LE buf =
     (case buf of
        b0 # b1 # b2 # b3 # _ \<Rightarrow>
          Inr (unat b0 + unat b1 * 2 ^ 8 + unat b2 * 2 ^ 16 + unat b3 * 2 ^ 24)
      | _ \<Rightarrow> Inl RangeError)"

definition readBigUInt64BE :: "buffer \<Rightarrow> error + nat" where
  "readBigUInt64BE buf =
     (case buf of
        b0 # b1 # b2 # b3 # b4 # b5 # b6 # b7 # _ \<Rightarrow>
          Inr ((unat b0 * 2 ^ 24 + unat b1 * 2 ^ 16 + unat b2 * 2 ^ 8 + unat b3) * 2 ^ 32
               + (unat b4 * 2 ^ 24 + unat b5 * 2 ^ 16 + unat b6 * 2 ^ 8 + unat b7))
      | _ \<Rightarrow> Inl RangeError)"

definition readBigUInt64LE :: "buffer \<Rightarrow> error + nat" where
  "readBigUInt64LE buf =
     (case buf of
        b0 # b1 # b2 # b3 # b4 # b5 # b6 # b7 # _ \<Rightarrow>
          Inr ((unat b0 + unat b1 * 2 ^ 8 + unat b2 * 2 ^ 16 + unat b3 * 2 ^ 24)
               + (unat b4 + unat b5 * 2 ^ 8 + unat b6 * 2 ^ 16 + unat b7 * 2 ^ 24) * 2 ^ 32)
      | _ \<Rightarrow> Inl RangeError)"

text \<open>The number of low bits that do not fit the 53 bits of a double's mantissa.\<close>

function Number_exponent :: "nat \<Rightarrow> nat" where
  "Number_exponent n = (if n < 2 ^ 53 then 0 else Suc (Number_exponent (n div 2)))"
  by pat_completeness auto
termination
  by (relation "measure (\<lambda>n. n)") auto

declare Number_exponent.simps [simp del]

definition Number :: "nat \<Rightarrow> nat" where
  "Number n =
     (let e = Number_exponent n;
          q = n div 2 ^ e;
          r = n mod 2 ^ e;
          half = 2 ^ (e - 1)
      in if e = 0 then n
         else if r > half \<or> (r = half \<and> odd q) then (q + 1) * 2 ^ e else q * 2 ^ e)"

text \<open>
  \<open>readPtr\<close>, the reader that the pointer branch of \<open>readRawBuildInfo\<close> picks from
  the pointer size and the flags byte.
\<close>

type_synonym ReadPtrFunc = "buffer \<Rightarrow> error + nat"

definition readPtr :: "nat \<Rightarrow> byte \<Rightarrow> ReadPtrFunc" where
  "readPtr ptrSize flags =
     (let bigEndian = (flags \<noteq> 0)
      in if ptrSize = 4
         then (if bigEndian then readUInt32BE else readUInt32LE)
         else (if bigEndian then (\<lambda>buf. map_sum id Number (readBigUInt64BE buf))
               else (\<lambda>buf. map_sum id Number (readBigUInt64LE buf))))"

definition readString :: "Elf \<Rightarrow> nat \<Rightarrow> ReadPtrFunc \<Rightarrow> nat \<Rightarrow> error + string" where
  "readString binaryFile ptrSize rd addr =
     (case readData (programs binaryFile) addr (2 * ptrSize) of
        None \<Rightarrow> Inr ''''
      | Some hdr \<Rightarrow>
          (if length hdr < 2 * ptrSize then Inr ''''
           else
             (case rd hdr of
                Inl e \<Rightarrow> Inl e
              | Inr dataAddr \<Rightarrow>
                  (case rd (drop ptrSize hdr) of
                     Inl e \<Rightarrow> Inl e
                   | Inr dataLen \<Rightarrow>
                       (case readData (programs binaryFile) dataAddr dataLen of
                          None \<Rightarrow> Inr ''''
                        | Some data \<Rightarrow>
                            (if length data < dataLen then Inr ''''
                             else Inr (toString_binary data)))))))"

definition buildInfoMagic :: string where
  "buildInfoMagic = CHR 0xFF # '' Go buildinf:''"

text \<open>
  The \<open>while (true)\<close> loop of \<open>readRawBuildInfo\<close>. It has no bound of its own, so it
  is a partial function: \<open>None\<close> is a run that never leaves the loop.
\<close>

partial_function (option) readRawBuildInfo_scan :: "buffer \<Rightarrow> (error + buffer) option" where
  "readRawBuildInfo_scan data =
     (let buildInfoAlign = 16;
          buildInfoSize = 32;
          i = indexOf (toString_binary data) buildInfoMagic
      in if i < 0 \<or> int (length data) - i < buildInfoSize
         then Some (Inl (Error ''not a Go executable''))
         else if i mod buildInfoAlign = 0 \<and> int (length data) - i \<ge> buildInfoSize
         then Some (Inr (subarray data i))
         else readRawBuildInfo_scan
                (subarray data (js_and (i + buildInfoAlign - 1) (js_not buildInfoAlign))))"

declare readRawBuildInfo_scan.simps [code]

text \<open>The rest of \<open>readRawBuildInfo\<close>: decoding the blob that the loop has found.\<close>

definition readRawBuildInfo_decode :: "Elf \<Rightarrow> buffer \<Rightarrow> error + string" where
  "readRawBuildInfo_decode binary data =
     (let ptrSize = unat (data ! 14)
      in if (data ! 15) AND 2 \<noteq> 0
         then
           (case decodeString (drop 32 data) of
              Inl e \<Rightarrow> Inl e
            | Inr (_, data) \<Rightarrow>
                (case decodeString data of
                   Inl e \<Rightarrow> Inl e
                 | Inr (m, _) \<Rightarrow> Inr m))
         else
           (let rd = readPtr ptrSize (data ! 15)
            in case rd (slice data 16 (16 + ptrSize)) of
                 Inl e \<Rightarrow> Inl e
               | Inr versionAddr \<Rightarrow>
                   (case readString binary ptrSize rd versionAddr of
                      Inl e \<Rightarrow> Inl e
                    | Inr vers \<Rightarrow>
                        (if vers = '''' then Inl (Error ''no version found in go binary'')
                         else
                           (case rd (slice data (16 + ptrSize) (16 + 2 * ptrSize)) of
                              Inl e \<Rightarrow> Inl e
                            | Inr modAddr \<Rightarrow>
                                (case readString binary ptrSize rd modAddr of
                                   Inl e \<Rightarrow> Inl e
                                 | Inr m \<Rightarrow>
                                     (if length m \<ge> 33 \<and> m ! (length m - 17) = CHR 0x0A
                                      then Inr (slice m 16 (length m - 16))
                                      else Inl (Error
                                        ''binary is not built with go module support''))))))))"

definition readRawBuildInfo :: "Elf \<Rightarrow> (error + string) option" where
  "readRawBuildInfo binary =
     (let dataAddr = dataStart binary;
          data = (case readData (programs binary) dataAddr (64 * 1024) of
                    None \<Rightarrow> []
                  | Some d \<Rightarrow> d)
      in case readRawBuildInfo_scan data of
           None \<Rightarrow> None
         | Some (Inl e) \<Rightarrow> Some (Inl e)
         | Some (Inr blob) \<Rightarrow> Some (readRawBuildInfo_decode binary blob))"

section \<open>Module-info parser\<close>

text \<open>
  The body of the \<open>forEach\<close> over the version lines: a line gives a module when its
  second and third fields are there and not empty.
\<close>

definition versionLine_module :: "string \<Rightarrow> GoModule option" where
  "versionLine_module versionLine =
     (case js_split versionLine [CHR 0x09] of
        _ # n # ver # _ \<Rightarrow> (if n = [] \<or> ver = [] then None else Some (new_GoModule n ver))
      | _ \<Rightarrow> None)"

text \<open>
  \<open>extractModuleInformation\<close>. The name is \<open>None\<close> where the source leaves it
  \<open>undefined\<close> (a \<open>mod\<close> line with no second field); an \<open>undefined\<close> appended to a string
  reads \<open>undefined\<close>. With no second line, \<open>mainModuleLine\<close> is \<open>undefined\<close> and the
  call of its \<open>split\<close> is a \<open>TypeError\<close>.
\<close>

definition extractModuleInformation :: "Elf \<Rightarrow> (error + (string option \<times> GoModule list)) option" where
  "extractModuleInformation binary =
     (case readRawBuildInfo binary of
        None \<Rightarrow> None
      | Some (Inl e) \<Rightarrow> Some (Inl e)
      | Some (Inr m) \<Rightarrow>
          Some
            (if m = [] then Inl (Error ''binary contains empty module info'')
             else
               (case js_split m [CHR 0x0A] of
                  pathDirective # mainModuleLine # versionsLines \<Rightarrow>
                    (let lineSplit = js_split mainModuleLine [CHR 0x09];
                         nm = nth_opt lineSplit 1;
                         nm = (if nth_opt lineSplit 0 \<noteq> Some ''mod''
                               then Some (''go-distribution@''
                                      @ (case nth_opt (js_split pathDirective [CHR 0x09]) 1 of
                                           None \<Rightarrow> ''undefined''
                                         | Some f \<Rightarrow> f))
                               else nm)
                     in Inr (nm, List.map_filter versionLine_module versionsLines))
                | _ \<Rightarrow> Inl TypeError)))"

section \<open>Path classifier\<close>

definition isTrimmed :: "string list \<Rightarrow> bool" where
  "isTrimmed files = list_all (\<lambda>file. \<not> prefix ''/'' file) files"

text \<open>
  In both searches a string that \<open>find\<close> returns counts as found only when it is not
  empty (\<open>if (file)\<close>). \<open>split\<close> with a separator that is not empty returns at least one
  piece, so the piece \<open>[0]\<close> is there.
\<close>

fun determineVendorPath :: "GoModule list \<Rightarrow> string list \<Rightarrow> string" where
  "determineVendorPath [] files = ''''"
| "determineVendorPath (m # modules) files =
     (let vendoredModulePath = path_join ''vendor'' (name m) @ ''/''
      in case find (\<lambda>file. js_includes file vendoredModulePath) files of
           None \<Rightarrow> determineVendorPath modules files
         | Some file \<Rightarrow>
             (if file = [] then determineVendorPath modules files
              else
                (let mainModulePath = hd (js_split file vendoredModulePath)
                 in case find (\<lambda>file. js_includes file mainModulePath
                                  \<and> \<not> js_includes file vendoredModulePath) files of
                      None \<Rightarrow> determineVendorPath modules files
                    | Some success \<Rightarrow>
                        (if success = [] then determineVendorPath modules files
                         else path_join mainModulePath ''vendor'' @ ''/''))))"

fun determineGoModCachePath :: "GoModule list \<Rightarrow> string list \<Rightarrow> string" where
  "determineGoModCachePath [] files = ''''"
| "determineGoModCachePath (m # modules) files =
     (case find (\<lambda>file. js_includes file (''/'' @ fullName m)) files of
        None \<Rightarrow> determineGoModCachePath modules files
      | Some file \<Rightarrow>
          (if file = [] then determineGoModCachePath modules files
           else hd (js_split file (fullName m))))"

record Paths =
  modCachePath :: string
  vendorPath :: string

definition determinePaths :: "GoModule list \<Rightarrow> string list \<Rightarrow> Paths" where
  "determinePaths modules files =
     (if isTrimmed files then \<lparr>modCachePath = '''', vendorPath = ''''\<rparr>
      else \<lparr>modCachePath = determineGoModCachePath modules files,
            vendorPath = determineVendorPath modules files\<rparr>)"

text \<open>
  \<open>matchFilesToModules\<close>, from the inside: the body of the loop over the modules for
  one file (\<open>moduleName\<close> is the key: \<open>name\<close> or \<open>fullName\<close>), that loop, the loop over
  the files, and the method. The method changes the modules of the binary in place; the
  model returns them, or the error thrown.
\<close>

definition match_module :: "(GoModule \<Rightarrow> string) \<Rightarrow> string \<Rightarrow> GoModule \<Rightarrow> error + GoModule" where
  "match_module moduleName pkgFile m =
     (let modFullName = moduleName m
      in if prefix modFullName pkgFile
         then
           (case js_split pkgFile modFullName of
              [p0, p1] \<Rightarrow>
                (if p0 \<noteq> '''' then Inl (GoFileNameError pkgFile modFullName)
                 else
                   (let dirName = path_parse_dir p1;
                        dirName = (if dirName = ''/'' then '''' else dirName);
                        pkgName = name m @ dirName
                    in if pkgName \<in> set (packages m) then Inr m
                       else Inr (m\<lparr>packages := packages m @ [pkgName]\<rparr>)))
            | _ \<Rightarrow> Inl (GoFileNameError pkgFile modFullName))
         else Inr m)"

fun match_modules :: "(GoModule \<Rightarrow> string) \<Rightarrow> string \<Rightarrow> GoModule list \<Rightarrow> error + GoModule list" where
  "match_modules moduleName pkgFile [] = Inr []"
| "match_modules moduleName pkgFile (m # modules) =
     (case match_module moduleName pkgFile m of
        Inl e \<Rightarrow> Inl e
      | Inr m' \<Rightarrow>
          (case match_modules moduleName pkgFile modules of
             Inl e \<Rightarrow> Inl e
           | Inr modules' \<Rightarrow> Inr (m' # modules')))"

fun match_files :: "Paths \<Rightarrow> GoModule list \<Rightarrow> string list \<Rightarrow> error + GoModule list" where
  "match_files paths modules [] = Inr modules"
| "match_files paths modules (fileName # files) =
     (if fileName = ''<autogenerated>'' then match_files paths modules files
      else if vendorPath paths \<noteq> '''' \<and> prefix (vendorPath paths) fileName then
        (case match_modules name (trimPrefix fileName (vendorPath paths)) modules of
           Inl e \<Rightarrow> Inl e
         | Inr modules' \<Rightarrow> match_files paths modules' files)
      else if modCachePath paths \<noteq> '''' \<and> prefix (modCachePath paths) fileName then
        (case match_modules fullName (trimPrefix fileName (modCachePath paths)) modules of
           Inl e \<Rightarrow> Inl e
         | Inr modules' \<Rightarrow> match_files paths modules' files)
      else if vendorPath paths = '''' \<and> modCachePath paths = '''' then
        (case match_modules fullName fileName modules of
           Inl e \<Rightarrow> Inl e
         | Inr modules' \<Rightarrow> match_files paths modules' files)
      else match_files paths modules files)"

definition matchFilesToModules :: "GoModule list \<Rightarrow> string list \<Rightarrow> error + GoModule list" where
  "matchFilesToModules modules files = match_files (determinePaths modules files) modules files"

section \<open>The binary\<close>

text \<open>
  The constructor of \<open>GoBinary\<close>. \<open>go12MapFiles\<close> stands for
  \<open>new LineTable(data).go12MapFiles()\<close>, which is not part of the sources at hand: it
  is a parameter, any function from the bytes of the section to a list of file names or
  an error.
\<close>

record GoBinary =
  binaryName :: "string option"
  binaryModules :: "GoModule list"

definition new_GoBinary :: "(buffer \<Rightarrow> error + string list) \<Rightarrow> Elf \<Rightarrow> (error + GoBinary) option" where
  "new_GoBinary go12MapFiles goElfBinary =
     (case extractModuleInformation goElfBinary of
        None \<Rightarrow> None
      | Some (Inl e) \<Rightarrow> Some (Inl e)
      | Some (Inr (nm, modules)) \<Rightarrow>
          (case find (\<lambda>section. sname section = ''.gopclntab'') (sections goElfBinary) of
             None \<Rightarrow> Some (Inl (Error ''no pcln table present in Go binary''))
           | Some pclnTab \<Rightarrow>
               (case go12MapFiles (sdata pclnTab) of
                  Inl e \<Rightarrow> Some (Inl e)
                | Inr files \<Rightarrow>
                    (case matchFilesToModules modules files of
                       Inl e \<Rightarrow> Some (Inl e)
                     | Inr modules' \<Rightarrow>
                         Some (Inr \<lparr>binaryName = nm, binaryModules = modules'\<rparr>)))))"

section \<open>The words of the specification\<close>




section \<open>The invariant of the path classifier\<close>



section \<open>Concrete inputs\<close>


text \<open>
  The 14 bytes of the magic, and a header in inline mode: the magic, the pointer size 8,
  the flags byte 2 and 16 bytes of padding.
\<close>

definition magicBytes :: buffer where
  "magicBytes =
     [0xFF, 0x20, 0x47, 0x6F, 0x20, 0x62, 0x75, 0x69, 0x6C, 0x64, 0x69, 0x6E, 0x66, 0x3A]"

definition inlineHeader :: buffer where
  "inlineHeader = magicBytes @ [8, 2] @ replicate 16 0"

text \<open>
  An image with no section and one writable \<open>load\<close> segment at address 0 that holds
  the given bytes.
\<close>

definition dataImage :: "buffer \<Rightarrow> Elf" where
  "dataImage d =
     \<lparr>sections = [],
      programs = [\<lparr>ptype = ''load'', vaddr = 0, filesz = length d, flags_w = True, pdata = d\<rparr>]\<rparr>"

text \<open>
  Inline mode, the version \<open>go\<close> and the module info of a binary of the Go
  distribution: the line \<open>path<TAB>cmd/vet\<close> and a newline. One more byte follows the
  second string.
\<close>

definition vetImage :: Elf where
  "vetImage = dataImage (inlineHeader @ [2, 0x67, 0x6F]
     @ [13, 0x70, 0x61, 0x74, 0x68, 0x09, 0x63, 0x6D, 0x64, 0x2F, 0x76, 0x65, 0x74, 0x0A] @ [0])"

text \<open>Inline mode, the version \<open>go\<close> and the module info \<open>x\<close>, with no newline.\<close>

definition oneLineImage :: Elf where
  "oneLineImage = dataImage (inlineHeader @ [2, 0x67, 0x6F] @ [1, 0x78] @ [0])"

text \<open>
  The inline header after seven bytes of padding: the magic stands at offset 7 and
  nowhere else, and 32 bytes follow the start of the match.
\<close>

definition misalignedImage :: Elf where
  "misalignedImage = dataImage (replicate 7 0 @ inlineHeader)"

text \<open>
  A vendored build with two modules, one nested in the other, as the module
  \<open>cloud.google.com/go/storage\<close> is in \<open>cloud.google.com/go\<close>.
\<close>

definition nestedModules :: "GoModule list" where
  "nestedModules =
     [new_GoModule ''cloud.google.com/go'' ''v0.110.0'',
      new_GoModule ''cloud.google.com/go/storage'' ''v1.30.1'']"

definition vendoredFiles :: "string list" where
  "vendoredFiles = [''/app/vendor/cloud.google.com/go/storage/bucket.go'', ''/app/main.go'']"



section \<open>Properties\<close>

subsection \<open>Segment reader\<close>






subsection \<open>Varint-prefixed strings\<close>

text \<open>
  C4, as the code has it. When the varint cannot be decoded, the \<open>RangeError\<close> of the
  decoder leaves \<open>decodeString\<close>. When it decodes to the length \<open>num\<close> in \<open>sz\<close> bytes,
  \<open>decodeString\<close> returns the empty string and the empty buffer exactly when \<open>sz\<close> is
  not positive or \<open>num\<close> is at least the number of bytes after the varint; otherwise
  it returns the \<open>num\<close> bytes after the varint as the string, and the bytes after them,
  of which there is at least one.
\<close>

theorem decodeString_result:
  "(\<forall>e. varint_decode data = Inl e \<longrightarrow> decodeString data = Inl e)
   \<and> (\<forall>num sz. varint_decode data = Inr (num, sz) \<longrightarrow>
         (decodeString data = Inr ('''', []) \<longleftrightarrow> sz \<le> 0 \<or> num \<ge> length data - sz)
         \<and> (\<not> (sz \<le> 0 \<or> num \<ge> length data - sz) \<longrightarrow>
              decodeString data
                = Inr (toString_binary (take num (drop sz data)), drop (sz + num) data)
              \<and> length (take num (drop sz data)) = num
              \<and> drop (sz + num) data \<noteq> []))"
  by (auto simp add: decodeString_def slice_def Let_def add.commute)

theorem decodeString_result_witness:
  "decodeString [1, 0x61, 0x62] = Inr (''a'', [0x62])
   \<and> decodeString [2, 0x61, 0x62] = Inr ('''', [])"
proof -
  have v1: "varint_decode [1, 0x61, 0x62] = Inr (1, 1)"
    by code_simp
  have v2: "varint_decode [2, 0x61, 0x62] = Inr (2, 1)"
    by code_simp
  have s: "toString_binary [0x61] = ''a''"
    by code_simp
  show ?thesis
    using decodeString_result [of "[1, 0x61, 0x62]"] decodeString_result [of "[2, 0x61, 0x62]"]
      v1 v2 s
    by simp
qed

text \<open>
  The buffer \<open>[1, 0x61]\<close> holds the varint 1 and the one byte of the string \<open>a\<close>: the
  string fills the rest of the buffer, and \<open>decodeString\<close> returns the empty string.
\<close>

theorem decodeString_exact_fill_counterexample:
  "varint_decode [1, 0x61] = Inr (1, 1) \<and> length [1, 0x61 :: byte] - 1 = 1
   \<and> decodeString [1, 0x61] = Inr ('''', [])
   \<and> decodeString [1, 0x61] \<noteq> Inr (''a'', [])"
  by code_simp

subsection \<open>Byte order of the pointers\<close>






subsection \<open>The empty file list\<close>

text \<open>
  C10. For the empty file list and any module list, \<open>matchFilesToModules\<close> raises no
  error and returns the modules unchanged, so package sets that were empty stay empty:
  the empty list counts as trimmed, \<open>determinePaths\<close> returns both prefixes empty, and
  the loop over the files has nothing to do.
\<close>

theorem matchFilesToModules_no_files:
  "isTrimmed []
   \<and> determinePaths modules [] = \<lparr>modCachePath = '''', vendorPath = ''''\<rparr>
   \<and> matchFilesToModules modules [] = Inr modules
   \<and> ((\<forall>m \<in> set modules. packages m = []) \<longrightarrow>
        (\<exists>ms. matchFilesToModules modules [] = Inr ms \<and> (\<forall>m \<in> set ms. packages m = [])))"
  by (simp add: isTrimmed_def determinePaths_def matchFilesToModules_def)

theorem matchFilesToModules_no_files_witness:
  "matchFilesToModules [new_GoModule ''example.com/b'' ''v2.1.0''] []
     = Inr [\<lparr>name = ''example.com/b'', version = ''v2.1.0'', packages = []\<rparr>]"
  using matchFilesToModules_no_files [of "[new_GoModule ''example.com/b'' ''v2.1.0'']"]
  by (simp add: new_GoModule_def)

subsection \<open>Module information\<close>

lemma vet_raw: "readRawBuildInfo vetImage = Some (Inr (''path'' @ [CHR 0x09] @ ''cmd/vet'' @ [CHR 0x0A]))"
  unfolding vetImage_def dataImage_def inlineHeader_def magicBytes_def by code_simp

lemma oneLine_raw: "readRawBuildInfo oneLineImage = Some (Inr ''x'')"
  unfolding oneLineImage_def dataImage_def inlineHeader_def magicBytes_def by code_simp

lemma split_from_not_Nil: "split_from sep cur s \<noteq> []"
  by (induction s arbitrary: cur) auto

lemma split_from_absent: "c \<notin> set s \<Longrightarrow> split_from [c] cur s = [rev cur @ s]"
  by (induction s arbitrary: cur) auto

lemma split_from_present: "c \<in> set s \<Longrightarrow> \<exists>a b rest. split_from [c] cur s = a # b # rest"
proof (induction s arbitrary: cur)
  case Nil
  then show ?case by simp
next
  case (Cons x xs)
  show ?case
  proof (cases "x = c")
    case True
    obtain b rest where "split_from [c] [] xs = b # rest"
      using split_from_not_Nil [of "[c]" "[]" xs] by (cases "split_from [c] [] xs") auto
    then show ?thesis using True by simp
  next
    case False
    then have "c \<in> set xs" using Cons.prems by simp
    then show ?thesis using False Cons.IH [of "x # cur"] by simp
  qed
qed

lemma vet_extract:
  "extractModuleInformation vetImage = Some (Inr (Some ''go-distribution@cmd/vet'', []))"
  unfolding vetImage_def dataImage_def inlineHeader_def magicBytes_def by code_simp

text \<open>
  C9. \<open>extractModuleInformation\<close> returns a value only when the module info has a
  newline. When \<open>readRawBuildInfo\<close> returns a blob that is not empty and has no newline,
  the main-module line is \<open>undefined\<close> and the function fails with a \<open>TypeError\<close>, which
  is none of the errors that the source raises with \<open>Error(message)\<close>; when the blob has
  a newline, the function returns a name and a module list.
\<close>

theorem extractModuleInformation_newline:
  assumes "readRawBuildInfo binary = Some (Inr blob)"
  shows "(blob \<noteq> [] \<and> CHR 0x0A \<notin> set blob \<longrightarrow>
            extractModuleInformation binary = Some (Inl TypeError))
         \<and> (CHR 0x0A \<in> set blob \<longrightarrow> (\<exists>r. extractModuleInformation binary = Some (Inr r)))"
proof (intro conjI impI)
  assume h: "blob \<noteq> [] \<and> CHR 0x0A \<notin> set blob"
  then have "js_split blob [CHR 0x0A] = [blob]"
    by (simp add: js_split_def split_from_absent)
  then show "extractModuleInformation binary = Some (Inl TypeError)"
    using assms h by (simp add: extractModuleInformation_def)
next
  assume h: "CHR 0x0A \<in> set blob"
  then obtain a b rest where "js_split blob [CHR 0x0A] = a # b # rest"
    using split_from_present [of "CHR 0x0A" blob "[]"] by (auto simp add: js_split_def)
  moreover have "blob \<noteq> []" using h by auto
  ultimately show "\<exists>r. extractModuleInformation binary = Some (Inr r)"
    using assms by (simp add: extractModuleInformation_def Let_def)
qed

theorem extractModuleInformation_newline_witness:
  "extractModuleInformation oneLineImage = Some (Inl TypeError)
   \<and> (\<exists>r. extractModuleInformation vetImage = Some (Inr r))"
  using extractModuleInformation_newline [OF oneLine_raw] extractModuleInformation_newline [OF vet_raw]
  by simp

text \<open>
  C8. When the second line of the module info has a first tab-separated field other than
  \<open>mod\<close>, the name that \<open>extractModuleInformation\<close> returns is \<open>go-distribution@\<close>
  followed by the second tab-separated field of line 0; the blob with the path directive
  of \<open>cmd/vet\<close> and no \<open>mod\<close> line gives \<open>go-distribution@cmd/vet\<close>.
\<close>

theorem extractModuleInformation_go_distribution:
  assumes "readRawBuildInfo binary = Some (Inr blob)"
    and "js_split blob [CHR 0x0A] = pathDirective # mainModuleLine # versionsLines"
    and "nth_opt (js_split mainModuleLine [CHR 0x09]) 0 \<noteq> Some ''mod''"
    and "nth_opt (js_split pathDirective [CHR 0x09]) 1 = Some field"
  shows "\<exists>modules. extractModuleInformation binary
           = Some (Inr (Some (''go-distribution@'' @ field), modules))"
proof -
  have "blob \<noteq> []"
    using assms(2) by (auto simp add: js_split_def)
  then show ?thesis
    using assms by (simp add: extractModuleInformation_def Let_def)
qed

theorem extractModuleInformation_go_distribution_witness:
  "\<exists>modules. extractModuleInformation vetImage
     = Some (Inr (Some ''go-distribution@cmd/vet'', modules))"
proof -
  have s: "js_split (''path'' @ [CHR 0x09] @ ''cmd/vet'' @ [CHR 0x0A]) [CHR 0x0A]
             = [''path'' @ [CHR 0x09] @ ''cmd/vet'', '''']"
    by code_simp
  have m: "nth_opt (js_split '''' [CHR 0x09]) 0 \<noteq> Some ''mod''"
    by code_simp
  have f: "nth_opt (js_split (''path'' @ [CHR 0x09] @ ''cmd/vet'') [CHR 0x09]) 1 = Some ''cmd/vet''"
    by code_simp
  show ?thesis
    using extractModuleInformation_go_distribution [OF vet_raw s m f] by simp
qed

subsection \<open>A binary with no line table\<close>

text \<open>
  C3, as the code has it. The constructor extracts the module information before it looks
  for the section \<open>.gopclntab\<close>. For an image with no such section it fails with
  \<open>no pcln table present in Go binary\<close> when the extraction returns; when the extraction
  fails, the constructor fails with the error of the extraction.
\<close>

theorem new_GoBinary_without_pclntab:
  assumes "find (\<lambda>section. sname section = ''.gopclntab'') (sections binary) = None"
  shows "new_GoBinary go12MapFiles binary =
           (case extractModuleInformation binary of
              None \<Rightarrow> None
            | Some (Inl e) \<Rightarrow> Some (Inl e)
            | Some (Inr r) \<Rightarrow> Some (Inl (Error ''no pcln table present in Go binary'')))"
  using assms by (simp add: new_GoBinary_def split: option.splits sum.splits prod.splits)

theorem new_GoBinary_without_pclntab_witness:
  "new_GoBinary (\<lambda>_. Inr []) vetImage = Some (Inl (Error ''no pcln table present in Go binary''))"
proof -
  have s: "find (\<lambda>section. sname section = ''.gopclntab'') (sections vetImage) = None"
    by (simp add: vetImage_def dataImage_def)
  show ?thesis
    using new_GoBinary_without_pclntab [OF s, of "\<lambda>_. Inr []"] vet_extract by simp
qed

text \<open>
  The image with no section and no segment has no \<open>.gopclntab\<close> and no build info: the
  constructor fails with \<open>not a Go executable\<close>.
\<close>

theorem new_GoBinary_build_info_first_counterexample:
  "find (\<lambda>section. sname section = ''.gopclntab'') (sections \<lparr>sections = [], programs = []\<rparr>) = None
   \<and> new_GoBinary (\<lambda>_. Inr []) \<lparr>sections = [], programs = []\<rparr>
       = Some (Inl (Error ''not a Go executable''))"
  by code_simp

subsection \<open>The scan for the magic\<close>

text \<open>
  When the loop returns a buffer, the buffer has at least 32 bytes: the bytes 14 and 15
  that the decoder reads are there.
\<close>

lemma readRawBuildInfo_scan_length:
  "readRawBuildInfo_scan data = Some r \<Longrightarrow> r = Inr blob \<Longrightarrow> 32 \<le> length blob"
proof (induction arbitrary: blob rule: readRawBuildInfo_scan.raw_induct[rotated 1, consumes 1])
  case (1 scan data r)
  then show ?case
    by (auto simp add: Let_def subarray_def split: if_splits)
qed

text \<open>
  With the magic at offset 1 and 32 bytes after it, the loop computes the next start
  \<open>(1 + 15) & ~16 = 0\<close> and goes round with the same buffer: it never returns.
\<close>

lemma indexOf_from_shift:
  "indexOf_from a sub s
     = (if indexOf_from 0 sub s < 0 then - 1 else int a + indexOf_from 0 sub s)"
proof (induction s arbitrary: a)
  case Nil
  then show ?case by simp
next
  case (Cons c cs)
  show ?case
    using Cons.IH [of "Suc a"] Cons.IH [of "Suc 0"] by simp
qed

lemma indexOf_Cons: "indexOf (c # cs) sub = int (Suc k) \<Longrightarrow> indexOf cs sub = int k"
  using indexOf_from_shift [of "Suc 0" sub cs]
  by (auto simp add: indexOf_def split: if_splits)

lemma indexOf_drop:
  "indexOf s sub = int k \<Longrightarrow> j \<le> k \<Longrightarrow> indexOf (drop j s) sub = int (k - j)"
proof (induction j arbitrary: s k)
  case 0
  then show ?case by simp
next
  case (Suc j)
  then obtain k' where k: "k = Suc k'" by (cases k) auto
  show ?case
  proof (cases s)
    case Nil
    then show ?thesis using Suc.prems k by (auto simp add: indexOf_def split: if_splits)
  next
    case (Cons c cs)
    have "indexOf (c # cs) sub = int (Suc k')"
      using Suc.prems(1) k Cons by simp
    then have "indexOf cs sub = int k'"
      by (rule indexOf_Cons)
    then have "indexOf (drop j cs) sub = int (k' - j)"
      using Suc.IH Suc.prems(2) k by simp
    then show ?thesis using Cons k by simp
  qed
qed

lemma toString_binary_drop: "toString_binary (drop n d) = drop n (toString_binary d)"
  by (simp add: toString_binary_def drop_map)

lemma stuck_offset: "js_and 16 (js_not 16) = 0"
  by code_simp

lemma misaligned_offset: "js_and 22 (js_not 16) = 6"
  by code_simp

lemma scan_stuck_step:
  "readRawBuildInfo_scan data = Some y
     \<Longrightarrow> \<not> (indexOf (toString_binary data) buildInfoMagic = 1 \<and> 33 \<le> length data)"
proof (induction rule: readRawBuildInfo_scan.raw_induct[rotated 1, consumes 1])
  case (1 scan data y)
  show ?case
  proof
    assume d: "indexOf (toString_binary data) buildInfoMagic = 1 \<and> 33 \<le> length data"
    then have "scan data = Some y"
      using 1(2) by (simp add: stuck_offset subarray_def)
    then show False
      using 1(1) d by blast
  qed
qed

lemma scan_stuck:
  assumes "indexOf (toString_binary data) buildInfoMagic = 1" and "33 \<le> length data"
  shows "readRawBuildInfo_scan data = None"
  using scan_stuck_step [of data] assms by (cases "readRawBuildInfo_scan data") auto

lemma misaligned_data:
  "readData (programs misalignedImage) (dataStart misalignedImage) (64 * 1024)
     = Some (replicate 7 0 @ inlineHeader)"
  by (simp add: misalignedImage_def dataImage_def dataStart_def slice_def inlineHeader_def magicBytes_def)

lemma misaligned_index: "indexOf (toString_binary (replicate 7 0 @ inlineHeader)) buildInfoMagic = 7"
  unfolding inlineHeader_def magicBytes_def by code_simp

lemma inlineHeader_length: "length inlineHeader = 32"
  by (simp add: inlineHeader_def magicBytes_def)

text \<open>
  C2 asks that \<open>readRawBuildInfo\<close> terminates with \<open>not a Go executable\<close> when the
  magic stands only at offsets that are not multiples of 16, for example only at offset 7.
  In the code, for every buffer whose first match is at offset 7 with 32 bytes from the
  match on, the loop moves the start by \<open>(7 + 15) & ~16 = 6\<close>, finds the magic at
  offset 1 and stays there: the scan does not return.
\<close>

theorem readRawBuildInfo_scan_offset_7_diverges:
  assumes "indexOf (toString_binary data) buildInfoMagic = 7" and "39 \<le> length data"
  shows "readRawBuildInfo_scan data = None"
proof -
  have "indexOf (toString_binary data) buildInfoMagic = int 7"
    using assms(1) by simp
  then have "indexOf (drop 6 (toString_binary data)) buildInfoMagic = int (7 - 6)"
    by (rule indexOf_drop) simp
  then have i: "indexOf (toString_binary (drop 6 data)) buildInfoMagic = 1"
    by (simp add: toString_binary_drop)
  have l: "33 \<le> length (drop 6 data)"
    using assms(2) by simp
  have "readRawBuildInfo_scan data = readRawBuildInfo_scan (drop 6 data)"
    using assms by (subst readRawBuildInfo_scan.simps) (simp add: misaligned_offset subarray_def)
  then show ?thesis
    using scan_stuck [OF i l] by simp
qed

theorem readRawBuildInfo_scan_offset_7_diverges_witness:
  "indexOf (toString_binary (replicate 7 0 @ inlineHeader)) buildInfoMagic = 7
   \<and> length (replicate 7 (0 :: byte) @ inlineHeader) = 39
   \<and> readRawBuildInfo misalignedImage = None"
proof -
  have l: "39 \<le> length (replicate 7 (0 :: byte) @ inlineHeader)"
    by (simp add: inlineHeader_length)
  show ?thesis
    using readRawBuildInfo_scan_offset_7_diverges [OF misaligned_index l] misaligned_data
      misaligned_index
    by (simp add: readRawBuildInfo_def inlineHeader_length)
qed

subsection \<open>Nested modules\<close>

text \<open>
  C1 asks that no package name is in the package sets of two modules, also when the key of
  one module is a prefix of the key of another. In the vendored build with the modules
  \<open>cloud.google.com/go\<close> and \<open>cloud.google.com/go/storage\<close>, the file
  \<open>/app/vendor/cloud.google.com/go/storage/bucket.go\<close> matches both keys, and the
  package \<open>cloud.google.com/go/storage\<close> is added to both modules.
\<close>

theorem matchFilesToModules_nested_modules_share_package:
  "determinePaths nestedModules vendoredFiles
     = \<lparr>modCachePath = [], vendorPath = ''/app/vendor/''\<rparr>
   \<and> matchFilesToModules nestedModules vendoredFiles
       = Inr [\<lparr>name = ''cloud.google.com/go'', version = ''v0.110.0'',
               packages = [''cloud.google.com/go/storage'']\<rparr>,
              \<lparr>name = ''cloud.google.com/go/storage'', version = ''v1.30.1'',
               packages = [''cloud.google.com/go/storage'']\<rparr>]"
  unfolding nestedModules_def vendoredFiles_def by code_simp

subsection \<open>Package names\<close>






















end
